theory Spec2Isabelle
  imports Main "HOL-Library.Word"
begin

unbundle bit_operations_syntax

section \<open>The physical page allocator of kernel/kalloc.c\<close>

text \<open>
  The file embeds \<^verbatim>\<open>kernel/kalloc.c\<close>: the reference-count table \<^verbatim>\<open>memrefs\<close>, the
  free list \<^verbatim>\<open>kmem.freelist\<close> threaded through the free pages themselves, and the
  functions \<^verbatim>\<open>kfree\<close>, \<^verbatim>\<open>kalloc\<close>, \<^verbatim>\<open>incr_ref\<close>, \<^verbatim>\<open>iscow\<close> and \<^verbatim>\<open>cowcopy\<close>.
  The model is sequential: \<^verbatim>\<open>acquire\<close> and \<^verbatim>\<open>release\<close> of the spinlocks are left
  out, every other statement of the C code is a step of the model.
\<close>

subsection \<open>Machine types and constants\<close>

type_synonym uint64 = "64 word"
type_synonym uint32 = "32 word"
type_synonym cint = "32 word"
type_synonym pte_t = "64 word"

text \<open>
  Modelled from the spec: the headers \<^verbatim>\<open>riscv.h\<close> and \<^verbatim>\<open>memlayout.h\<close> are not part of
  the sources at hand. The frame size is the 4096 bytes the source comment and the
  specification name; the top of managed memory, the maximum virtual address and the
  positions of the Valid, Writable and COW bits of a page-table entry are those of the
  RISC-V port (the COW bit is the first of the two bits reserved for software).
\<close>

definition PGSIZE :: uint64 where
  "PGSIZE = 4096"

definition PHYSTOP :: uint64 where
  "PHYSTOP = 0x88000000"

definition MAXVA :: uint64 where
  "MAXVA = push_bit 38 1"

definition PTE_V :: pte_t where
  "PTE_V = 1"

definition PTE_W :: pte_t where
  "PTE_W = 4"

definition PTE_COW :: pte_t where
  "PTE_COW = 256"

definition PGROUNDDOWN :: "uint64 \<Rightarrow> uint64" where
  "PGROUNDDOWN a = a AND NOT (PGSIZE - 1)"

definition PTE2PA :: "pte_t \<Rightarrow> uint64" where
  "PTE2PA pte = push_bit 12 (drop_bit 10 pte)"

definition PA2PTE :: "uint64 \<Rightarrow> pte_t" where
  "PA2PTE pa = push_bit 10 (drop_bit 12 pa)"

definition PTE_FLAGS :: "pte_t \<Rightarrow> uint64" where
  "PTE_FLAGS pte = pte AND 0x3FF"

text \<open>\<^verbatim>\<open>#define MEMREFS PHYSTOP/PGSIZE\<close>, the number of entries of the table.\<close>

definition MEMREFS :: uint64 where
  "MEMREFS = PHYSTOP div PGSIZE"

subsection \<open>Physical memory\<close>

text \<open>
  Physical memory is a store of bytes. \<^verbatim>\<open>memset\<close> and \<^verbatim>\<open>memmove\<close> are the usual
  primitives; \<^verbatim>\<open>memmove\<close> reads the source range of the old store, so overlapping
  ranges are copied correctly. The \<^verbatim>\<open>next\<close> field of a \<^verbatim>\<open>struct run\<close> is the first
  eight bytes of the free page itself, little-endian.
\<close>

type_synonym memory = "uint64 \<Rightarrow> 8 word"

definition memset :: "memory \<Rightarrow> uint64 \<Rightarrow> 8 word \<Rightarrow> uint64 \<Rightarrow> memory" where
  "memset m dst c n = (\<lambda>a. if a - dst < n then c else m a)"

definition memmove :: "memory \<Rightarrow> uint64 \<Rightarrow> uint64 \<Rightarrow> uint64 \<Rightarrow> memory" where
  "memmove m dst src n = (\<lambda>a. if a - dst < n then m (src + (a - dst)) else m a)"

definition store64 :: "memory \<Rightarrow> uint64 \<Rightarrow> uint64 \<Rightarrow> memory" where
  "store64 m p v = (\<lambda>a. if a - p < 8 then ucast (drop_bit (8 * unat (a - p)) v) else m a)"

definition load64 :: "memory \<Rightarrow> uint64 \<Rightarrow> uint64" where
  "load64 m p =
     ucast (m p) OR push_bit 8 (ucast (m (p + 1))) OR push_bit 16 (ucast (m (p + 2)))
     OR push_bit 24 (ucast (m (p + 3))) OR push_bit 32 (ucast (m (p + 4)))
     OR push_bit 40 (ucast (m (p + 5))) OR push_bit 48 (ucast (m (p + 6)))
     OR push_bit 56 (ucast (m (p + 7)))"

subsection \<open>Allocator state and outcomes\<close>

text \<open>
  \<^verbatim>\<open>memrefs[i].count\<close> is a C \<^verbatim>\<open>int\<close>, indexed by a \<^verbatim>\<open>uint32\<close>; the code never
  checks the index against \<^verbatim>\<open>MEMREFS\<close>. The counter is a 32-bit word whose increment
  and decrement wrap around, as the instructions of the machine do; \<open>sint\<close> reads it
  as the signed integer the comparisons of the code see. Signed overflow is undefined
  in C, so a theorem that reads a changed counter as an integer says that the counter
  is away from the end of the range. \<^verbatim>\<open>end_addr\<close> is the linker symbol \<^verbatim>\<open>end\<close>, the
  first address after the kernel image: it is fixed at link time and no function
  changes it.
\<close>

record kstate =
  memrefs :: "uint32 \<Rightarrow> cint"
  freelist :: uint64
  ram :: memory
  end_addr :: uint64

text \<open>
  A call returns, or stops in \<^verbatim>\<open>panic\<close> with its message, or dereferences a null
  pointer (undefined in C; the kernel has no mapping at address 0, so the access traps).
\<close>

datatype 'a outcome = Return 'a | Panic string | NullDeref

subsection \<open>kfree\<close>

definition kfree :: "uint64 \<Rightarrow> kstate \<Rightarrow> kstate outcome" where
  "kfree pa s =
     (if pa mod PGSIZE \<noteq> 0 \<or> pa < end_addr s \<or> PHYSTOP \<le> pa then Panic ''kfree''
      else
        let i = (ucast (pa div PGSIZE) :: uint32);
            s1 = s\<lparr>memrefs := (memrefs s)(i := memrefs s i - 1)\<rparr>
        in if 0 < sint (memrefs s1 i) then Return s1
           else
             let s2 = s1\<lparr>ram := memset (ram s1) pa 1 PGSIZE\<rparr>;
                 s3 = s2\<lparr>ram := store64 (ram s2) pa (freelist s2)\<rparr>
             in Return (s3\<lparr>freelist := pa\<rparr>))"

subsection \<open>kalloc\<close>

definition kalloc :: "kstate \<Rightarrow> uint64 \<times> kstate" where
  "kalloc s =
     (let r = freelist s in
      if r \<noteq> 0 then
        let i = (ucast (r div PGSIZE) :: uint32);
            s1 = s\<lparr>memrefs := (memrefs s)(i := 1)\<rparr>;
            s2 = s1\<lparr>freelist := load64 (ram s1) r\<rparr>
        in (r, s2\<lparr>ram := memset (ram s2) r 5 PGSIZE\<rparr>)
      else (r, s))"

subsection \<open>incr\_ref\<close>

definition incr_ref :: "uint64 \<Rightarrow> kstate \<Rightarrow> cint \<times> kstate" where
  "incr_ref pa s =
     (if pa mod PGSIZE \<noteq> 0 \<or> pa < end_addr s \<or> PHYSTOP \<le> pa then (- 1, s)
      else
        let i = (ucast (pa div PGSIZE) :: uint32)
        in (1, s\<lparr>memrefs := (memrefs s)(i := memrefs s i + 1)\<rparr>))"

subsection \<open>The address-translation service\<close>

text \<open>
  A page table maps the page of a virtual address to its entry; no entry models the
  null pointer that \<^verbatim>\<open>walk\<close> returns.
\<close>

type_synonym pagetable_t = "uint64 \<Rightarrow> pte_t option"

text \<open>
  Modelled from the spec: \<^verbatim>\<open>walk\<close> is defined in \<^verbatim>\<open>vm.c\<close>, which is not part of the
  sources at hand. It is the address-translation lookup from a virtual address to its
  entry; the offset of the address within its page plays no part.
\<close>

definition walk :: "pagetable_t \<Rightarrow> uint64 \<Rightarrow> pte_t option" where
  "walk pagetable va = pagetable (PGROUNDDOWN va)"

text \<open>A store through the pointer that \<^verbatim>\<open>walk\<close> returned for \<^verbatim>\<open>va\<close>.\<close>

definition pte_store :: "pagetable_t \<Rightarrow> uint64 \<Rightarrow> pte_t \<Rightarrow> pagetable_t" where
  "pte_store pagetable va v = pagetable(PGROUNDDOWN va \<mapsto> v)"

text \<open>
  Modelled from the spec: \<^verbatim>\<open>mappages\<close> is defined in \<^verbatim>\<open>vm.c\<close>, which is not part of
  the sources at hand. It is the mapping installation: it replaces or creates the entry
  of \<^verbatim>\<open>va\<close> with the new frame and flags, marked valid, and it can fail. Whether it
  fails is decided outside the allocator, so the decision is the argument \<^verbatim>\<open>ok\<close>;
  \<^verbatim>\<open>None\<close> is the nonzero return value, with the page table left as it was.
  \<^verbatim>\<open>cowcopy\<close> installs one page at a time, the only size modelled.
\<close>

definition mappages ::
  "bool \<Rightarrow> pagetable_t \<Rightarrow> uint64 \<Rightarrow> uint64 \<Rightarrow> uint64 \<Rightarrow> uint64 \<Rightarrow> pagetable_t option" where
  "mappages ok pagetable va sz pa perm =
     (if ok then Some (pte_store pagetable va (PA2PTE pa OR perm OR PTE_V)) else None)"

subsection \<open>iscow\<close>

text \<open>The result is a C \<^verbatim>\<open>int\<close>: the 64-bit value \<^verbatim>\<open>*pte & PTE_COW\<close> is truncated.\<close>

definition iscow :: "pagetable_t \<Rightarrow> uint64 \<Rightarrow> cint" where
  "iscow pagetable va =
     (if MAXVA < va then 0
      else case walk pagetable va of
             None \<Rightarrow> 0
           | Some pte \<Rightarrow> if pte AND PTE_V = 0 then 0 else ucast (pte AND PTE_COW))"

subsection \<open>cowcopy\<close>

text \<open>
  The result is the returned address together with the page table and the allocator
  state the call leaves behind.
\<close>

definition cowcopy ::
  "bool \<Rightarrow> pagetable_t \<Rightarrow> uint64 \<Rightarrow> kstate \<Rightarrow> (uint64 \<times> pagetable_t \<times> kstate) outcome" where
  "cowcopy ok pagetable va0 s =
     (let va = PGROUNDDOWN va0 in
      case walk pagetable va of
        None \<Rightarrow> NullDeref
      | Some pte \<Rightarrow>
          let pa = PTE2PA pte;
              i = (ucast (pa div PGSIZE) :: uint32)
          in if memrefs s i = 1
             then Return (pa, pte_store pagetable va ((pte OR PTE_W) AND NOT PTE_COW), s)
             else
               (case kalloc s of
                  (mem, s1) \<Rightarrow>
                    if mem = 0 then Return (0, pagetable, s1)
                    else
                      let s2 = s1\<lparr>ram := memmove (ram s1) mem pa PGSIZE\<rparr>;
                          pte1 = pte AND NOT PTE_V;
                          pagetable1 = pte_store pagetable va pte1;
                          flag = (PTE_FLAGS pte1 OR PTE_W) AND NOT PTE_COW
                      in (case mappages ok pagetable1 va PGSIZE mem flag of
                            None \<Rightarrow>
                              (case kfree mem s2 of
                                 Return s3 \<Rightarrow> Return (0, pagetable1, s3)
                               | Panic msg \<Rightarrow> Panic msg
                               | NullDeref \<Rightarrow> NullDeref)
                          | Some pagetable2 \<Rightarrow>
                              (case kfree (PGROUNDDOWN pa) s2 of
                                 Return s3 \<Rightarrow> Return (mem, pagetable2, s3)
                               | Panic msg \<Rightarrow> Panic msg
                               | NullDeref \<Rightarrow> NullDeref))))"

subsection \<open>Frames, the free list and runs of allocations\<close>

text \<open>
  The index of a frame in the reference-count table, as every function computes it:
  \<^verbatim>\<open>uint32 i = (uint64)pa/PGSIZE\<close>.
\<close>

definition frame_index :: "uint64 \<Rightarrow> uint32" where
  "frame_index pa = ucast (pa div PGSIZE)"

text \<open>
  A managed frame: a frame-aligned address in the managed, non-reserved range, from the
  first address after the kernel image up to the top of physical memory.
\<close>

definition managed_frame :: "kstate \<Rightarrow> uint64 \<Rightarrow> bool" where
  "managed_frame s pa \<longleftrightarrow> pa mod PGSIZE = 0 \<and> end_addr s \<le> pa \<and> pa < PHYSTOP"

text \<open>
  A stretch of the free list: from \<open>p\<close> the \<^verbatim>\<open>next\<close> pointers lead through the frames
  \<open>xs\<close>, in this order, to \<open>q\<close>.
\<close>

fun free_path :: "memory \<Rightarrow> uint64 \<Rightarrow> uint64 list \<Rightarrow> uint64 \<Rightarrow> bool" where
  "free_path m p [] q \<longleftrightarrow> p = q"
| "free_path m p (x # xs) q \<longleftrightarrow> p = x \<and> x \<noteq> 0 \<and> free_path m (load64 m x) xs q"

text \<open>The addresses that \<open>n\<close> calls of \<^verbatim>\<open>kalloc\<close> in a row return, and the state they leave.\<close>

fun kallocs :: "nat \<Rightarrow> kstate \<Rightarrow> uint64 list \<times> kstate" where
  "kallocs 0 s = ([], s)"
| "kallocs (Suc n) s =
     (case kalloc s of (r, s1) \<Rightarrow> (case kallocs n s1 of (rs, s2) \<Rightarrow> (r # rs, s2)))"

subsection \<open>A concrete machine\<close>

text \<open>
  The kernel image ends at \<open>0x80021000\<close>. The last frame of physical memory,
  \<open>0x87FFF000\<close>, is shared by two mappings after a fork (counter 2); the frame below
  it, \<open>0x87FFE000\<close>, is the only free frame, its counter at the value the initial
  \<^verbatim>\<open>kfree\<close> of \<^verbatim>\<open>kinit\<close> leaves.
\<close>

definition fork_state :: kstate where
  "fork_state =
     \<lparr>memrefs = (\<lambda>i. if i = 0x87FFF then 2 else if i = 0x87FFE then - 1 else 0),
      freelist = 0x87FFE000,
      ram = (\<lambda>a. if a - 0x87FFF000 < 4096 then 7 else 0),
      end_addr = 0x80021000\<rparr>"

text \<open>The same machine once the sharing has collapsed to one owner.\<close>

definition sole_state :: kstate where
  "sole_state = fork_state\<lparr>memrefs := (memrefs fork_state)(0x87FFF := 1)\<rparr>"

text \<open>
  The page at virtual address \<open>0x1000\<close> is mapped to the shared frame: valid,
  readable, user, COW and not writable.
\<close>

definition fork_pagetable :: pagetable_t where
  "fork_pagetable = (\<lambda>va. if va = 0x1000 then Some 0x21FFFD13 else None)"

text \<open>The same page with the Valid bit of its entry clear.\<close>

definition stale_pagetable :: pagetable_t where
  "stale_pagetable = (\<lambda>va. if va = 0x1000 then Some 0x21FFFD12 else None)"

text \<open>
  A machine with two free frames and nothing allocated: \<open>0x87FFE000\<close>, freed after
  use (counter 0), is the head of the free list, and its link leads to \<open>0x87FFD000\<close>,
  free since \<^verbatim>\<open>kinit\<close> (counter \<open>-1\<close>), the end of the list. Memory holds the free
  pattern.
\<close>

definition freed_state :: kstate where
  "freed_state =
     \<lparr>memrefs = (\<lambda>i. if i = 0x87FFD then - 1 else 0),
      freelist = 0x87FFE000,
      ram = store64 (store64 (\<lambda>a. 1) 0x87FFD000 0) 0x87FFE000 0x87FFD000,
      end_addr = 0x80021000\<rparr>"

text \<open>
  An inconsistent machine: the shared frame \<open>0x87FFF000\<close>, counter 2 and mapped, is at
  the same time the head of the free list.
\<close>

definition aliased_state :: kstate where
  "aliased_state = fork_state\<lparr>freelist := 0x87FFF000\<rparr>"

text \<open>
  The state that \<^verbatim>\<open>cowcopy\<close> leaves on that machine: the counter of the frame is 0, the
  frame is the head of the free list, and it holds the free pattern behind the link that
  \<^verbatim>\<open>kalloc\<close> read from its content.
\<close>

definition aliased_result :: kstate where
  "aliased_result =
     \<lparr>memrefs = (\<lambda>i. if i = 0x87FFF then 0 else if i = 0x87FFE then - 1 else 0),
      freelist = 0x87FFF000,
      ram = store64 (memset (ram fork_state) 0x87FFF000 1 PGSIZE) 0x87FFF000 0x0707070707070707,
      end_addr = 0x80021000\<rparr>"

text \<open>
  A machine whose page \<open>0x1000\<close> is mapped to the frame \<open>0x80000000\<close> of the kernel
  image, below \<^verbatim>\<open>end\<close>, with the counter 2 in the table entry of that frame.
\<close>

definition reserved_state :: kstate where
  "reserved_state = fork_state\<lparr>memrefs := (memrefs fork_state)(0x80000 := 2)\<rparr>"

definition reserved_pagetable :: pagetable_t where
  "reserved_pagetable = (\<lambda>va. if va = 0x1000 then Some 0x20000113 else None)"

section \<open>Arithmetic of frames and memory\<close>

lemma pgsize_mask: "PGSIZE - 1 = mask 12"
  by (simp add: PGSIZE_def mask_eq_exp_minus_1)

lemma pgrounddown_shift: "PGROUNDDOWN a = push_bit 12 (drop_bit 12 a)"
  unfolding PGROUNDDOWN_def pgsize_mask
  by (rule bit_word_eqI) (auto simp add: bit_simps)

lemma pgrounddown_idem: "PGROUNDDOWN (PGROUNDDOWN a) = PGROUNDDOWN a"
  by (simp add: PGROUNDDOWN_def word_bw_assocs)

lemma pgrounddown_pte2pa: "PGROUNDDOWN (PTE2PA pte) = PTE2PA pte"
  unfolding pgrounddown_shift PTE2PA_def
  by (rule bit_word_eqI) (auto simp add: bit_simps)

lemma walk_pgrounddown: "walk pagetable (PGROUNDDOWN va) = walk pagetable va"
  by (simp add: walk_def pgrounddown_idem)

lemma walk_pte_store: "walk (pte_store pagetable va v) va = Some v"
  by (simp add: walk_def pte_store_def)

lemma walk_pte_store_other:
  "PGROUNDDOWN va' \<noteq> PGROUNDDOWN va \<Longrightarrow> walk (pte_store pagetable va v) va' = walk pagetable va'"
  by (simp add: walk_def pte_store_def)

lemma pte_store_pgrounddown: "pte_store pagetable (PGROUNDDOWN va) v = pte_store pagetable va v"
  by (simp add: pte_store_def pgrounddown_idem)

lemma pte_store_twice: "pte_store (pte_store pagetable va v) va w = pte_store pagetable va w"
  by (simp add: pte_store_def)

lemma sint_dec: "- (2 ^ 31) < sint (c :: cint) \<Longrightarrow> sint (c - 1) = sint c - 1"
  using sint_range_size[of c]
  by (simp add: sint_word_ariths signed_take_bit_int_eq_self word_size)

lemma sint_inc: "sint (c :: cint) < 2 ^ 31 - 1 \<Longrightarrow> sint (c + 1) = sint c + 1"
  using sint_range_size[of c]
  by (simp add: sint_word_ariths signed_take_bit_int_eq_self word_size)

lemma byte_join:
  "(ucast (ucast v :: 8 word) :: 64 word) OR push_bit 8 (ucast (ucast (drop_bit 8 v) :: 8 word))
     OR push_bit 16 (ucast (ucast (drop_bit 16 v) :: 8 word))
     OR push_bit 24 (ucast (ucast (drop_bit 24 v) :: 8 word))
     OR push_bit 32 (ucast (ucast (drop_bit 32 v) :: 8 word))
     OR push_bit 40 (ucast (ucast (drop_bit 40 v) :: 8 word))
     OR push_bit 48 (ucast (ucast (drop_bit 48 v) :: 8 word))
     OR push_bit 56 (ucast (ucast (drop_bit 56 v) :: 8 word)) = (v :: 64 word)"
  (is "?lhs = v")
proof (rule bit_word_eqI)
  fix n :: nat
  assume "n < LENGTH(64)"
  then have "n < 64"
    by simp
  then consider "n < 8" | "8 \<le> n \<and> n < 16" | "16 \<le> n \<and> n < 24" | "24 \<le> n \<and> n < 32"
    | "32 \<le> n \<and> n < 40" | "40 \<le> n \<and> n < 48" | "48 \<le> n \<and> n < 56" | "56 \<le> n \<and> n < 64"
    by linarith
  then show "bit ?lhs n = bit v n"
    by cases (auto simp add: bit_simps)
qed

lemma load64_store64: "load64 (store64 m p v) p = v"
  by (simp add: load64_def store64_def byte_join)

lemma store64_outside: "\<not> a - p < 8 \<Longrightarrow> store64 m p v a = m a"
  by (simp add: store64_def)

lemma memset_inside: "off < n \<Longrightarrow> memset m dst c n (dst + off) = c"
  by (simp add: memset_def)

lemma memset_outside: "\<not> a - dst < n \<Longrightarrow> memset m dst c n a = m a"
  by (simp add: memset_def)

lemma memmove_inside: "off < n \<Longrightarrow> memmove m dst src n (dst + off) = m (src + off)"
  by (simp add: memmove_def)

lemma aligned_multiple:
  fixes a :: uint64
  assumes "a mod 4096 = 0"
  shows "a = (a div 4096) * 4096"
  using assms div_mult_mod_eq[of a 4096] by simp

lemma aligned_diff_dvd:
  fixes a b :: uint64
  assumes "a mod 4096 = 0" and "b mod 4096 = 0"
  shows "4096 dvd unat (a - b)"
proof -
  define e where "e = a div 4096 - b div 4096"
  have "a - b = e * 4096"
    unfolding e_def
    using aligned_multiple[OF assms(1)] aligned_multiple[OF assms(2)]
    by (metis left_diff_distrib)
  then have "unat (a - b) = unat (e * 4096)"
    by simp
  also have "\<dots> = unat e * unat (4096 :: uint64) mod 2 ^ LENGTH(64)"
    by (rule unat_word_ariths(2))
  finally have "unat (a - b) = unat e * 4096 mod 2 ^ 64"
    by simp
  moreover have "(4096::nat) dvd 2 ^ 64"
    by simp
  ultimately show ?thesis
    by (simp add: dvd_mod)
qed

text \<open>Two different frame-aligned addresses are the bases of disjoint frames.\<close>

lemma page_disjoint:
  fixes a b off :: uint64
  assumes "a mod 4096 = 0" and "b mod 4096 = 0" and "a \<noteq> b" and "off < 4096"
  shows "\<not> (a + off - b < 4096)"
proof -
  define d where "d = a - b"
  have eq: "a + off - b = d + off"
    by (simp add: d_def)
  have "d \<noteq> 0"
    using assms(3) by (simp add: d_def)
  then have pos: "unat d \<noteq> 0"
    by (simp add: unat_eq_0)
  obtain q where q: "unat d = 4096 * q"
    using aligned_diff_dvd[OF assms(1,2)] by (auto simp: d_def dvd_def)
  have "unat d < 2 ^ 64"
    using unsigned_less[of d] by simp
  with q pos have lo: "4096 \<le> unat d" and hi: "unat d + 4096 \<le> 2 ^ 64"
    by auto
  have off: "unat off < 4096"
    using assms(4) by (simp add: word_less_nat_alt)
  have "unat (d + off) = unat d + unat off"
    using hi off unat_add_lem[of d off] by simp
  with lo have "\<not> (d + off < 4096)"
    by (simp add: word_less_nat_alt)
  then show ?thesis
    unfolding eq .
qed

lemma bit_pte_v: "bit PTE_V n \<longleftrightarrow> n = 0"
  by (simp add: PTE_V_def bit_1_iff)

lemma bit_pte_w: "bit PTE_W n \<longleftrightarrow> n = 2"
proof -
  have "bit ((2 :: 64 word) ^ 2) n \<longleftrightarrow> n = 2"
    by (subst bit_exp_iff) auto
  then show ?thesis
    by (simp add: PTE_W_def)
qed

lemma bit_pte_cow: "bit PTE_COW n \<longleftrightarrow> n = 8"
proof -
  have "bit ((2 :: 64 word) ^ 8) n \<longleftrightarrow> n = 8"
    by (subst bit_exp_iff) auto
  then show ?thesis
    by (simp add: PTE_COW_def)
qed

lemma and_pte_cow: "pte AND PTE_COW = (if bit pte 8 then PTE_COW else 0)"
  by (rule bit_word_eqI) (auto simp add: bit_simps bit_pte_cow)

lemma ucast_cow_zero: "(ucast (pte AND PTE_COW) :: cint) = 0 \<longleftrightarrow> pte AND PTE_COW = 0"
  unfolding and_pte_cow by (simp add: PTE_COW_def)

section \<open>The functions, with their guards read as the specification reads them\<close>

text \<open>
  The test of \<^verbatim>\<open>kfree\<close> and \<^verbatim>\<open>incr_ref\<close> rejects exactly the addresses that are
  not managed frames.
\<close>

lemma guard_managed_frame:
  "(pa mod PGSIZE \<noteq> 0 \<or> pa < end_addr s \<or> PHYSTOP \<le> pa) \<longleftrightarrow> \<not> managed_frame s pa"
  unfolding managed_frame_def by (metis leD leI)

lemma kfree_unfold:
  "kfree pa s =
     (if \<not> managed_frame s pa then Panic ''kfree''
      else
        let i = frame_index pa;
            s1 = s\<lparr>memrefs := (memrefs s)(i := memrefs s i - 1)\<rparr>
        in if 0 < sint (memrefs s1 i) then Return s1
           else
             let s2 = s1\<lparr>ram := memset (ram s1) pa 1 PGSIZE\<rparr>;
                 s3 = s2\<lparr>ram := store64 (ram s2) pa (freelist s2)\<rparr>
             in Return (s3\<lparr>freelist := pa\<rparr>))"
  by (simp only: kfree_def guard_managed_frame frame_index_def)

lemma incr_ref_unfold:
  "incr_ref pa s =
     (if \<not> managed_frame s pa then (- 1, s)
      else
        let i = frame_index pa
        in (1, s\<lparr>memrefs := (memrefs s)(i := memrefs s i + 1)\<rparr>))"
  by (simp only: incr_ref_def guard_managed_frame frame_index_def)

lemma kfree_panic: "\<not> managed_frame s pa \<Longrightarrow> kfree pa s = Panic ''kfree''"
  by (simp add: kfree_unfold)

lemma kfree_shared:
  assumes "managed_frame s pa" and "0 < sint (memrefs s (frame_index pa) - 1)"
  shows "kfree pa s =
     Return (s\<lparr>memrefs := (memrefs s)(frame_index pa := memrefs s (frame_index pa) - 1)\<rparr>)"
  using assms by (simp add: kfree_unfold Let_def)

lemma kfree_last:
  assumes "managed_frame s pa" and "\<not> 0 < sint (memrefs s (frame_index pa) - 1)"
  shows "kfree pa s =
     Return (s\<lparr>memrefs := (memrefs s)(frame_index pa := memrefs s (frame_index pa) - 1),
               ram := store64 (memset (ram s) pa 1 PGSIZE) pa (freelist s),
               freelist := pa\<rparr>)"
  using assms by (simp add: kfree_unfold Let_def)

lemma pushed_frame_content:
  assumes "8 \<le> off" and "off < PGSIZE"
  shows "store64 (memset m pa 1 PGSIZE) pa v (pa + off) = 1"
  using assms by (simp add: store64_def memset_def not_less)

lemma pushed_frame_outside:
  assumes "\<not> a - pa < PGSIZE"
  shows "store64 (memset m pa c PGSIZE) pa v a = m a"
proof -
  have "PGSIZE \<le> a - pa"
    using assms by (simp add: not_less)
  moreover have "(8 :: uint64) \<le> PGSIZE"
    by (simp add: PGSIZE_def)
  ultimately have "8 \<le> a - pa"
    by (rule order_trans[rotated])
  then have "\<not> a - pa < 8"
    by (simp add: not_less)
  with assms show ?thesis
    by (simp add: store64_def memset_def)
qed

lemma kalloc_empty: "freelist s = 0 \<Longrightarrow> kalloc s = (0, s)"
  by (simp add: kalloc_def)

lemma kalloc_pop:
  "freelist s \<noteq> 0 \<Longrightarrow>
   kalloc s =
     (freelist s,
      s\<lparr>memrefs := (memrefs s)(frame_index (freelist s) := 1),
        freelist := load64 (ram s) (freelist s),
        ram := memset (ram s) (freelist s) 5 PGSIZE\<rparr>)"
  by (simp add: kalloc_def frame_index_def Let_def)

lemma kfree_Return_managed: "kfree pa s = Return s' \<Longrightarrow> managed_frame s pa"
  by (cases "managed_frame s pa") (simp_all add: kfree_panic)

lemma grant_write_bits:
  "bit ((pte OR PTE_W) AND NOT PTE_COW) n \<longleftrightarrow> n = 2 \<or> (n \<noteq> 8 \<and> bit pte n)"
  by (auto simp add: bit_simps bit_pte_w bit_pte_cow dest: bit_imp_le_length)

lemma cowcopy_in_place:
  assumes "walk pagetable va = Some pte" and "memrefs s (frame_index (PTE2PA pte)) = 1"
  shows "cowcopy ok pagetable va s =
           Return (PTE2PA pte, pte_store pagetable va ((pte OR PTE_W) AND NOT PTE_COW), s)"
  using assms
  by (simp add: cowcopy_def walk_pgrounddown pte_store_pgrounddown frame_index_def Let_def)

lemma aligned_pgrounddown:
  assumes "a mod PGSIZE = 0"
  shows "PGROUNDDOWN a = a"
proof -
  have zero: "a AND mask 12 = 0"
    using assms word_mod_2p_is_mask[of 12 a] by (simp add: PGSIZE_def)
  have low: "\<not> (bit a n \<and> n < 12)" for n
  proof
    assume "bit a n \<and> n < 12"
    then have "bit (a AND mask 12) n"
      by (simp add: bit_simps)
    with zero show False
      by simp
  qed
  show ?thesis
    unfolding PGROUNDDOWN_def pgsize_mask
    using low by (intro bit_word_eqI) (auto simp add: bit_simps)
qed

lemma pte2pa_aligned: "PTE2PA pte mod PGSIZE = 0"
proof -
  have "PTE2PA pte AND mask 12 = 0"
    unfolding PTE2PA_def by (rule bit_word_eqI) (auto simp add: bit_simps)
  then show ?thesis
    using word_mod_2p_is_mask[of 12 "PTE2PA pte"] by (simp add: PGSIZE_def)
qed

lemma managed_div_less:
  assumes "managed_frame s a"
  shows "unat (a div PGSIZE) < 2 ^ 32"
proof -
  have "a < PHYSTOP"
    using assms by (simp add: managed_frame_def)
  then have "unat a < 0x88000000"
    by (simp add: word_less_nat_alt PHYSTOP_def)
  then have "unat a div 4096 < 2 ^ 32"
    by simp
  then show ?thesis
    by (simp add: unat_div PGSIZE_def)
qed

text \<open>The index of a managed frame lies within the reference-count table.\<close>

lemma managed_index_in_table:
  assumes "managed_frame s a"
  shows "a div PGSIZE < MEMREFS"
proof -
  have "a < PHYSTOP"
    using assms by (simp add: managed_frame_def)
  then have "unat a < 0x88000000"
    by (simp add: word_less_nat_alt PHYSTOP_def)
  then have "unat a div 4096 < 0x88000"
    by simp
  then show ?thesis
    by (simp add: word_less_nat_alt unat_div PGSIZE_def MEMREFS_def PHYSTOP_def)
qed

lemma frame_index_inject:
  assumes "managed_frame s a" and "managed_frame s b" and "frame_index a = frame_index b"
  shows "a = b"
proof -
  have "unat (frame_index a) = unat (a div PGSIZE)"
    using managed_div_less[OF assms(1)] by (simp add: frame_index_def unsigned_ucast_eq take_bit_nat_eq_self)
  moreover have "unat (frame_index b) = unat (b div PGSIZE)"
    using managed_div_less[OF assms(2)] by (simp add: frame_index_def unsigned_ucast_eq take_bit_nat_eq_self)
  ultimately have "a div PGSIZE = b div PGSIZE"
    using assms(3) by (simp add: word_unat_eq_iff)
  moreover have "a = (a div 4096) * 4096" and "b = (b div 4096) * 4096"
    using assms(1,2) by (simp_all add: managed_frame_def PGSIZE_def aligned_multiple)
  ultimately show ?thesis
    by (metis PGSIZE_def)
qed

lemma pte_flags_mask: "PTE_FLAGS pte = pte AND mask 10"
  by (simp add: PTE_FLAGS_def mask_eq_exp_minus_1)

lemma new_entry_bits:
  assumes "n < 10"
  shows "bit (PA2PTE g OR ((PTE_FLAGS (pte AND NOT PTE_V) OR PTE_W) AND NOT PTE_COW) OR PTE_V) n
           \<longleftrightarrow> n = 0 \<or> n = 2 \<or> (n \<noteq> 8 \<and> bit pte n)"
  using assms
  by (auto simp add: PA2PTE_def pte_flags_mask bit_simps bit_pte_v bit_pte_w bit_pte_cow)

lemma new_entry_frame:
  assumes "g mod PGSIZE = 0"
  shows "PTE2PA (PA2PTE g OR ((PTE_FLAGS (pte AND NOT PTE_V) OR PTE_W) AND NOT PTE_COW) OR PTE_V) = g"
proof -
  have "PTE2PA (PA2PTE g OR ((PTE_FLAGS (pte AND NOT PTE_V) OR PTE_W) AND NOT PTE_COW) OR PTE_V)
          = push_bit 12 (drop_bit 12 g)"
    unfolding PTE2PA_def PA2PTE_def pte_flags_mask
    by (rule bit_word_eqI) (auto simp add: bit_simps bit_pte_v bit_pte_w bit_pte_cow)
  also have "\<dots> = g"
    using aligned_pgrounddown[OF assms] by (simp add: pgrounddown_shift)
  finally show ?thesis .
qed

text \<open>The duplication path up to the installation of the new mapping.\<close>

lemma cowcopy_copy_path:
  assumes "walk pagetable va = Some pte" and "memrefs s (frame_index (PTE2PA pte)) \<noteq> 1"
    and "freelist s \<noteq> 0"
  shows "cowcopy ok pagetable va s =
     (let mem = freelist s;
          s2 = s\<lparr>memrefs := (memrefs s)(frame_index mem := 1),
                 freelist := load64 (ram s) mem,
                 ram := memmove (memset (ram s) mem 5 PGSIZE) mem (PTE2PA pte) PGSIZE\<rparr>;
          pte1 = pte AND NOT PTE_V;
          flag = (PTE_FLAGS pte1 OR PTE_W) AND NOT PTE_COW
      in if ok
         then (case kfree (PTE2PA pte) s2 of
                 Return s3 \<Rightarrow> Return (mem, pte_store pagetable va (PA2PTE mem OR flag OR PTE_V), s3)
               | Panic msg \<Rightarrow> Panic msg
               | NullDeref \<Rightarrow> NullDeref)
         else (case kfree mem s2 of
                 Return s3 \<Rightarrow> Return (0, pte_store pagetable va pte1, s3)
               | Panic msg \<Rightarrow> Panic msg
               | NullDeref \<Rightarrow> NullDeref))"
  using assms
  by (simp add: cowcopy_def walk_pgrounddown pte_store_pgrounddown kalloc_pop mappages_def
      pgrounddown_pte2pa pte_store_twice frame_index_def[symmetric] Let_def)

lemma load64_cong:
  assumes "\<And>i. i < 8 \<Longrightarrow> m' (x + i) = m (x + i)"
  shows "load64 m' x = load64 m x"
proof -
  have "m' (x + 0) = m (x + 0)" "m' (x + 1) = m (x + 1)" "m' (x + 2) = m (x + 2)"
    "m' (x + 3) = m (x + 3)" "m' (x + 4) = m (x + 4)" "m' (x + 5) = m (x + 5)"
    "m' (x + 6) = m (x + 6)" "m' (x + 7) = m (x + 7)"
    by (rule assms, simp)+
  then show ?thesis
    by (simp add: load64_def)
qed

text \<open>The link of an aligned frame lies outside every other aligned frame.\<close>

lemma link_outside_frame:
  assumes "x mod PGSIZE = 0" and "p mod PGSIZE = 0" and "x \<noteq> p" and "i < 8"
  shows "\<not> x + i - p < PGSIZE"
proof -
  have "i < 4096"
    using assms(4) by (rule less_trans) simp
  with page_disjoint[of x p i] assms(1-3) show ?thesis
    by (simp add: PGSIZE_def)
qed

lemma load64_outside_frame:
  assumes same: "\<And>a. \<not> a - p < PGSIZE \<Longrightarrow> m' a = m a"
    and "x mod PGSIZE = 0" and "p mod PGSIZE = 0" and "x \<noteq> p"
  shows "load64 m' x = load64 m x"
  by (rule load64_cong) (simp add: same link_outside_frame assms(2-4))

lemma free_path_outside_frame:
  assumes same: "\<And>a. \<not> a - p < PGSIZE \<Longrightarrow> m' a = m a"
    and "p mod PGSIZE = 0" and "p \<notin> set ns" and "\<forall>x\<in>set ns. x mod PGSIZE = 0"
  shows "free_path m' h ns q \<longleftrightarrow> free_path m h ns q"
  using assms(3,4)
proof (induction ns arbitrary: h)
  case Nil
  show ?case
    by simp
next
  case (Cons x xs)
  have "load64 m' x = load64 m x"
  proof (rule load64_outside_frame[where p = p])
    show "x mod PGSIZE = 0" and "x \<noteq> p"
      using Cons.prems by auto
  qed (simp_all add: same assms(2))
  with Cons show ?case
    by simp
qed

lemma free_path_snoc:
  assumes "free_path m h ns x" and "x \<noteq> 0"
  shows "free_path m h (ns @ [x]) (load64 m x)"
  using assms by (induction ns arbitrary: h) auto

lemma kallocs_path:
  assumes "free_path (ram t) (freelist t) ns q" and "distinct ns"
    and "\<forall>x\<in>set ns. x mod PGSIZE = 0"
  shows "fst (kallocs (length ns) t) = ns \<and> freelist (snd (kallocs (length ns) t)) = q"
  using assms
proof (induction ns arbitrary: t)
  case Nil
  then show ?case
    by simp
next
  case (Cons x xs)
  define t1 where "t1 = t\<lparr>memrefs := (memrefs t)(frame_index x := 1),
        freelist := load64 (ram t) x,
        ram := memset (ram t) x 5 PGSIZE\<rparr>"
  from Cons.prems(1) have head: "freelist t = x" "x \<noteq> 0"
    and rest: "free_path (ram t) (load64 (ram t) x) xs q"
    by simp_all
  have pop: "kalloc t = (x, t1)"
    using head by (simp add: kalloc_pop t1_def)
  have "free_path (memset (ram t) x 5 PGSIZE) (load64 (ram t) x) xs q"
    using Cons.prems(2,3) rest
    by (subst free_path_outside_frame[where m = "ram t" and p = x]) (simp_all add: memset_outside)
  then have "free_path (ram t1) (freelist t1) xs q"
    by (simp add: t1_def)
  with Cons.IH[of t1] Cons.prems(2,3)
  have "fst (kallocs (length xs) t1) = xs \<and> freelist (snd (kallocs (length xs) t1)) = q"
    by simp
  then show ?case
    by (auto simp add: pop split: prod.splits)
qed

lemma memset_over_frame:
  assumes "\<And>a. \<not> a - p < n \<Longrightarrow> m' a = m a"
  shows "memset m' p c n = memset m p c n"
  by (rule ext) (simp add: memset_def assms)

section \<open>The reference-count table\<close>

text \<open>
  Claim C8. \<^verbatim>\<open>incr_ref\<close> fails, returning \<open>-1\<close>, if and only if the address is not
  frame-aligned or lies outside the managed range, and then it changes nothing. On
  every other call it returns \<open>1\<close> and increases the counter of exactly that frame by
  exactly one: the counter of every other frame, the free list and the content of
  memory are unchanged. The increase is that of the machine; read as a signed integer
  it is an increase by one for every counter below the largest \<^verbatim>\<open>int\<close>.
\<close>

theorem incr_ref_frame_effect:
  assumes "incr_ref pa s = (r, s')"
  shows "(r = - 1 \<longleftrightarrow> \<not> managed_frame s pa) \<and>
         (if managed_frame s pa
          then r = 1 \<and>
               memrefs s' (frame_index pa) = memrefs s (frame_index pa) + 1 \<and>
               (sint (memrefs s (frame_index pa)) < 2 ^ 31 - 1 \<longrightarrow>
                  sint (memrefs s' (frame_index pa)) = sint (memrefs s (frame_index pa)) + 1) \<and>
               (\<forall>j. j \<noteq> frame_index pa \<longrightarrow> memrefs s' j = memrefs s j) \<and>
               freelist s' = freelist s \<and> ram s' = ram s \<and> end_addr s' = end_addr s
          else s' = s)"
proof (cases "managed_frame s pa")
  case True
  then have "incr_ref pa s =
      (1, s\<lparr>memrefs := (memrefs s)(frame_index pa := memrefs s (frame_index pa) + 1)\<rparr>)"
    by (simp add: incr_ref_unfold Let_def)
  with assms have "r = 1"
    and "s' = s\<lparr>memrefs := (memrefs s)(frame_index pa := memrefs s (frame_index pa) + 1)\<rparr>"
    by simp_all
  with True show ?thesis
    by (simp add: sint_inc)
next
  case False
  then have "incr_ref pa s = (- 1, s)"
    by (simp add: incr_ref_unfold)
  with assms False show ?thesis
    by simp
qed

theorem incr_ref_frame_effect_witness:
  "fst (incr_ref 0x87FFF000 fork_state) = 1 \<and> managed_frame fork_state 0x87FFF000 \<and>
   memrefs fork_state (frame_index 0x87FFF000) = 2 \<and>
   memrefs (snd (incr_ref 0x87FFF000 fork_state)) (frame_index 0x87FFF000) = 3 \<and>
   freelist (snd (incr_ref 0x87FFF000 fork_state)) = freelist fork_state \<and>
   fst (incr_ref 0x87FFF001 fork_state) = - 1"
  using incr_ref_frame_effect[of "0x87FFF000" fork_state
      "fst (incr_ref 0x87FFF000 fork_state)" "snd (incr_ref 0x87FFF000 fork_state)"]
    incr_ref_frame_effect[of "0x87FFF001" fork_state
      "fst (incr_ref 0x87FFF001 fork_state)" "snd (incr_ref 0x87FFF001 fork_state)"]
  by (simp add: managed_frame_def fork_state_def PGSIZE_def PHYSTOP_def frame_index_def)

section \<open>The free-list allocator\<close>

text \<open>
  Claim C7. \<^verbatim>\<open>kfree\<close> panics if and only if the address is not frame-aligned or lies
  outside the managed, non-reserved range. Otherwise it returns, with the counter of
  the frame decremented by one (read as a signed integer: by one for every counter
  above the smallest \<^verbatim>\<open>int\<close>). When the new counter is still above zero, the free list
  and the content of memory are unchanged. When it is zero or below, the frame is
  filled with the byte 1 and pushed onto the head of the free list: the frame is the
  new head, its link (the first eight bytes of the frame) is the former head, the other
  bytes of the frame hold 1, and memory outside the frame is unchanged.
\<close>

theorem kfree_spec:
  "(kfree pa s = Panic ''kfree'' \<longleftrightarrow> \<not> managed_frame s pa) \<and>
   (managed_frame s pa \<longrightarrow>
      (\<exists>s'. kfree pa s = Return s' \<and>
            memrefs s' = (memrefs s)(frame_index pa := memrefs s (frame_index pa) - 1) \<and>
            (- (2 ^ 31) < sint (memrefs s (frame_index pa)) \<longrightarrow>
               sint (memrefs s' (frame_index pa)) = sint (memrefs s (frame_index pa)) - 1) \<and>
            end_addr s' = end_addr s \<and>
            (if 0 < sint (memrefs s' (frame_index pa))
             then freelist s' = freelist s \<and> ram s' = ram s
             else ram s' = store64 (memset (ram s) pa 1 PGSIZE) pa (freelist s) \<and>
                  (\<forall>off. 8 \<le> off \<and> off < PGSIZE \<longrightarrow> ram s' (pa + off) = 1) \<and>
                  (\<forall>a. \<not> a - pa < PGSIZE \<longrightarrow> ram s' a = ram s a) \<and>
                  freelist s' = pa \<and> load64 (ram s') pa = freelist s)))"
proof (cases "managed_frame s pa")
  case False
  then show ?thesis
    by (simp add: kfree_panic)
next
  case True
  show ?thesis
  proof (cases "0 < sint (memrefs s (frame_index pa) - 1)")
    case shared: True
    show ?thesis
      using True shared by (simp add: kfree_shared sint_dec)
  next
    case last: False
    show ?thesis
      using True last
      by (simp add: kfree_last sint_dec load64_store64 pushed_frame_content pushed_frame_outside)
  qed
qed

theorem kfree_spec_witness:
  "managed_frame fork_state 0x87FFF000 \<and> kfree 0x87FFF000 fork_state \<noteq> Panic ''kfree'' \<and>
   (\<exists>s'. kfree 0x87FFF000 fork_state = Return s' \<and> memrefs s' (frame_index 0x87FFF000) = 1 \<and>
      freelist s' = 0x87FFE000) \<and>
   kfree 0x87FFF008 fork_state = Panic ''kfree'' \<and> kfree 0x80000000 fork_state = Panic ''kfree''"
  using kfree_spec[of "0x87FFF000" fork_state] kfree_spec[of "0x87FFF008" fork_state]
    kfree_spec[of "0x80000000" fork_state]
  by (auto simp add: managed_frame_def fork_state_def PGSIZE_def PHYSTOP_def frame_index_def)

text \<open>
  Claim C6. Every call of \<^verbatim>\<open>kalloc\<close> on a non-empty free list returns the head of the
  list, which is the frame the latest freeing \<^verbatim>\<open>kfree\<close> pushed (and the pop leaves the
  list that \<^verbatim>\<open>kfree\<close> found). Whatever the counter of the frame was, it is 1
  afterwards, and every byte of the frame holds the allocation pattern 5. The counters
  of the other frames and memory outside the frame are unchanged.
\<close>

theorem kalloc_success:
  assumes "freelist s \<noteq> 0" and "kalloc s = (r, s')"
  shows "r = freelist s \<and>
         memrefs s' (frame_index r) = 1 \<and>
         (\<forall>off. off < PGSIZE \<longrightarrow> ram s' (r + off) = 5) \<and>
         freelist s' = load64 (ram s) r \<and>
         (\<forall>j. j \<noteq> frame_index r \<longrightarrow> memrefs s' j = memrefs s j) \<and>
         (\<forall>a. \<not> a - r < PGSIZE \<longrightarrow> ram s' a = ram s a) \<and>
         end_addr s' = end_addr s \<and>
         (\<forall>s0 pa. kfree pa s0 = Return s \<and> \<not> 0 < sint (memrefs s0 (frame_index pa) - 1) \<longrightarrow>
            r = pa \<and> freelist s' = freelist s0)"
proof -
  from assms have r: "r = freelist s"
    and s': "s' = s\<lparr>memrefs := (memrefs s)(frame_index (freelist s) := 1),
        freelist := load64 (ram s) (freelist s),
        ram := memset (ram s) (freelist s) 5 PGSIZE\<rparr>"
    by (auto simp add: kalloc_pop)
  have lifo: "r = pa \<and> freelist s' = freelist s0"
    if "kfree pa s0 = Return s" and "\<not> 0 < sint (memrefs s0 (frame_index pa) - 1)" for s0 pa
  proof -
    have "managed_frame s0 pa"
      using that(1) by (rule kfree_Return_managed)
    then have "s = s0\<lparr>memrefs := (memrefs s0)(frame_index pa := memrefs s0 (frame_index pa) - 1),
               ram := store64 (memset (ram s0) pa 1 PGSIZE) pa (freelist s0),
               freelist := pa\<rparr>"
      using that by (simp add: kfree_last)
    then have "freelist s = pa" and "load64 (ram s) pa = freelist s0"
      by (simp_all add: load64_store64)
    then show ?thesis
      by (simp add: r s')
  qed
  have "r = freelist s \<and>
         memrefs s' (frame_index r) = 1 \<and>
         (\<forall>off. off < PGSIZE \<longrightarrow> ram s' (r + off) = 5) \<and>
         freelist s' = load64 (ram s) r \<and>
         (\<forall>j. j \<noteq> frame_index r \<longrightarrow> memrefs s' j = memrefs s j) \<and>
         (\<forall>a. \<not> a - r < PGSIZE \<longrightarrow> ram s' a = ram s a) \<and>
         end_addr s' = end_addr s"
    by (simp add: r s' memset_inside memset_outside)
  with lifo show ?thesis
    by blast
qed

theorem kalloc_success_witness:
  "freelist fork_state \<noteq> 0 \<and> fst (kalloc fork_state) = 0x87FFE000 \<and>
   memrefs fork_state (frame_index 0x87FFE000) = - 1 \<and>
   memrefs (snd (kalloc fork_state)) (frame_index 0x87FFE000) = 1 \<and>
   ram (snd (kalloc fork_state)) (0x87FFE000 + 0xFFF) = 5"
proof -
  have nonempty: "freelist fork_state \<noteq> 0"
    by (simp add: fork_state_def)
  have call: "kalloc fork_state = (0x87FFE000, snd (kalloc fork_state))"
    by (simp add: kalloc_def fork_state_def Let_def)
  from kalloc_success[OF nonempty call]
  have counter: "memrefs (snd (kalloc fork_state)) (frame_index 0x87FFE000) = 1"
    and content: "\<forall>off. off < PGSIZE \<longrightarrow> ram (snd (kalloc fork_state)) (0x87FFE000 + off) = 5"
    by blast+
  from content[rule_format, of "0xFFF"]
  have byte: "ram (snd (kalloc fork_state)) (0x87FFE000 + 0xFFF) = 5"
    by (simp add: PGSIZE_def)
  from call have ret: "fst (kalloc fork_state) = 0x87FFE000"
    by (metis fst_conv)
  have before: "memrefs fork_state (frame_index 0x87FFE000) = - 1"
    by (simp add: fork_state_def frame_index_def PGSIZE_def)
  from nonempty ret before counter byte show ?thesis
    by blast
qed

text \<open>
  Claim C10. \<^verbatim>\<open>kfree\<close> does not detect a double free. For every managed frame whose
  counter is at or below zero (and above the smallest \<^verbatim>\<open>int\<close>, so that the decrement
  does not overflow), a further \<^verbatim>\<open>kfree\<close> returns: the counter is one less and
  negative, the frame is filled with the free pattern again and pushed onto the head of
  the free list, in front of the former head. If the frame was on the free list already,
  behind the aligned, pairwise different frames \<open>ns\<close>, it is on the list twice
  afterwards, as the head and again behind \<open>ns\<close>, and of the next calls of
  \<^verbatim>\<open>kalloc\<close> the first and the one after the frames \<open>ns\<close> both return it.
\<close>

theorem kfree_double_free:
  assumes managed: "managed_frame s pa"
    and freed: "sint (memrefs s (frame_index pa)) \<le> 0"
    and range: "- (2 ^ 31) < sint (memrefs s (frame_index pa))"
  shows "\<exists>s'. kfree pa s = Return s' \<and>
           sint (memrefs s' (frame_index pa)) = sint (memrefs s (frame_index pa)) - 1 \<and>
           sint (memrefs s' (frame_index pa)) < 0 \<and>
           (\<forall>off. 8 \<le> off \<and> off < PGSIZE \<longrightarrow> ram s' (pa + off) = 1) \<and>
           freelist s' = pa \<and> load64 (ram s') pa = freelist s \<and>
           (\<forall>ns. pa \<noteq> 0 \<and> free_path (ram s) (freelist s) ns pa \<and> distinct ns \<and>
                 pa \<notin> set ns \<and> (\<forall>x\<in>set ns. x mod PGSIZE = 0) \<longrightarrow>
              free_path (ram s') (freelist s') (pa # ns) pa \<and>
              fst (kallocs (length ns + 2) s') = pa # ns @ [pa])"
proof -
  define c where "c = memrefs s (frame_index pa)"
  define s' where "s' = s\<lparr>memrefs := (memrefs s)(frame_index pa := c - 1),
               ram := store64 (memset (ram s) pa 1 PGSIZE) pa (freelist s),
               freelist := pa\<rparr>"
  have dec: "sint (c - 1) = sint c - 1"
    using range by (simp add: c_def sint_dec)
  have neg: "sint (c - 1) < 0"
    using freed dec by (simp add: c_def)
  have run: "kfree pa s = Return s'"
    using managed neg by (simp add: kfree_last c_def s'_def)
  have aligned: "pa mod PGSIZE = 0"
    using managed by (simp add: managed_frame_def)
  have outside: "ram s' a = ram s a" if "\<not> a - pa < PGSIZE" for a
    using that by (simp add: s'_def pushed_frame_outside)
  have twice: "free_path (ram s') (freelist s') (pa # ns) pa \<and>
      fst (kallocs (length ns + 2) s') = pa # ns @ [pa]"
    if nonnull: "pa \<noteq> 0" and path: "free_path (ram s) (freelist s) ns pa" and dist: "distinct ns"
      and fresh: "pa \<notin> set ns" and frames: "\<forall>x\<in>set ns. x mod PGSIZE = 0" for ns
  proof -
    define t where "t = s'\<lparr>memrefs := (memrefs s')(frame_index pa := 1),
        freelist := freelist s,
        ram := memset (ram s') pa 5 PGSIZE\<rparr>"
    have "free_path (ram s') (freelist s) ns pa"
      using path outside aligned fresh frames
      by (subst free_path_outside_frame[where m = "ram s" and p = pa]) simp_all
    then have first: "free_path (ram s') (freelist s') (pa # ns) pa"
      using nonnull by (simp add: s'_def load64_store64)
    have pop: "kalloc s' = (pa, t)"
      using nonnull by (simp add: kalloc_pop s'_def t_def load64_store64)
    have "free_path (ram t) (freelist s) ns pa"
      using path outside aligned fresh frames
      by (subst free_path_outside_frame[where m = "ram s" and p = pa])
        (simp_all add: t_def memset_outside)
    then have "free_path (ram t) (freelist t) (ns @ [pa]) (load64 (ram t) pa)"
      using nonnull by (simp add: free_path_snoc t_def)
    moreover have "distinct (ns @ [pa])" and "\<forall>x\<in>set (ns @ [pa]). x mod PGSIZE = 0"
      using dist fresh frames aligned by simp_all
    ultimately have "fst (kallocs (length (ns @ [pa])) t) = ns @ [pa]"
      using kallocs_path by blast
    then have "fst (kallocs (length ns + 2) s') = pa # ns @ [pa]"
      by (simp add: pop split: prod.splits)
    with first show ?thesis
      by simp
  qed
  have "kfree pa s = Return s' \<and>
           sint (memrefs s' (frame_index pa)) = sint (memrefs s (frame_index pa)) - 1 \<and>
           sint (memrefs s' (frame_index pa)) < 0 \<and>
           (\<forall>off. 8 \<le> off \<and> off < PGSIZE \<longrightarrow> ram s' (pa + off) = 1) \<and>
           freelist s' = pa \<and> load64 (ram s') pa = freelist s"
    using run dec neg by (simp add: s'_def c_def pushed_frame_content load64_store64)
  with twice show ?thesis
    by blast
qed

theorem kfree_double_free_witness:
  "managed_frame freed_state 0x87FFD000 \<and>
   sint (memrefs freed_state (frame_index 0x87FFD000)) = - 1 \<and>
   free_path (ram freed_state) (freelist freed_state) [0x87FFE000] 0x87FFD000 \<and>
   (\<exists>s'. kfree 0x87FFD000 freed_state = Return s' \<and>
      sint (memrefs s' (frame_index 0x87FFD000)) = - 2 \<and>
      free_path (ram s') (freelist s') [0x87FFD000, 0x87FFE000] 0x87FFD000 \<and>
      fst (kallocs 3 s') = [0x87FFD000, 0x87FFE000, 0x87FFD000])"
proof -
  have managed: "managed_frame freed_state 0x87FFD000"
    by (simp add: managed_frame_def freed_state_def PGSIZE_def PHYSTOP_def)
  have counter: "sint (memrefs freed_state (frame_index 0x87FFD000)) = - 1"
    by (simp add: freed_state_def frame_index_def PGSIZE_def)
  have path: "free_path (ram freed_state) (freelist freed_state) [0x87FFE000] 0x87FFD000"
    by (simp add: freed_state_def load64_store64)
  have frames: "\<forall>x\<in>set [0x87FFE000 :: uint64]. x mod PGSIZE = 0"
    by (simp add: PGSIZE_def)
  from kfree_double_free[OF managed] counter
  obtain s' where run: "kfree 0x87FFD000 freed_state = Return s'"
    and after: "sint (memrefs s' (frame_index 0x87FFD000)) =
        sint (memrefs freed_state (frame_index 0x87FFD000)) - 1"
    and twice: "\<forall>ns. 0x87FFD000 \<noteq> (0 :: uint64) \<and>
        free_path (ram freed_state) (freelist freed_state) ns 0x87FFD000 \<and> distinct ns \<and>
        0x87FFD000 \<notin> set ns \<and> (\<forall>x\<in>set ns. x mod PGSIZE = 0) \<longrightarrow>
        free_path (ram s') (freelist s') (0x87FFD000 # ns) 0x87FFD000 \<and>
        fst (kallocs (length ns + 2) s') = 0x87FFD000 # ns @ [0x87FFD000]"
    by auto
  from twice[rule_format, of "[0x87FFE000]"] path frames
  have "free_path (ram s') (freelist s') [0x87FFD000, 0x87FFE000] 0x87FFD000"
    and "fst (kallocs 3 s') = [0x87FFD000, 0x87FFE000, 0x87FFD000]"
    by (simp_all add: numeral_3_eq_3)
  with managed counter path run after show ?thesis
    by auto
qed

section \<open>The copy-on-write resolver\<close>

text \<open>
  Claim C9. \<^verbatim>\<open>iscow\<close> returns 0 for every virtual address above the maximum virtual
  address, for every address with no mapping, and for every mapped address whose entry
  is not valid or has the COW flag clear. It returns a nonzero value exactly when the
  address is not above the maximum and has a valid mapping with the COW flag set.
\<close>

theorem iscow_spec:
  "(MAXVA < va \<longrightarrow> iscow pagetable va = 0) \<and>
   (walk pagetable va = None \<longrightarrow> iscow pagetable va = 0) \<and>
   (\<forall>pte. walk pagetable va = Some pte \<and> (pte AND PTE_V = 0 \<or> pte AND PTE_COW = 0) \<longrightarrow>
      iscow pagetable va = 0) \<and>
   (iscow pagetable va \<noteq> 0 \<longleftrightarrow>
      va \<le> MAXVA \<and>
      (\<exists>pte. walk pagetable va = Some pte \<and> pte AND PTE_V \<noteq> 0 \<and> pte AND PTE_COW \<noteq> 0))"
  by (auto simp add: iscow_def ucast_cow_zero not_less split: option.splits)

theorem iscow_spec_witness:
  "iscow fork_pagetable 0x1234 \<noteq> 0 \<and> walk fork_pagetable 0x1234 = Some 0x21FFFD13 \<and>
   iscow fork_pagetable 0x2000 = 0 \<and> walk fork_pagetable 0x2000 = None \<and>
   iscow stale_pagetable 0x1234 = 0 \<and> iscow fork_pagetable 0x4000001234 = 0"
  using iscow_spec[of "0x1234" fork_pagetable] iscow_spec[of "0x2000" fork_pagetable]
    iscow_spec[of "0x1234" stale_pagetable] iscow_spec[of "0x4000001234" fork_pagetable]
  by (simp add: walk_def fork_pagetable_def stale_pagetable_def PGROUNDDOWN_def PGSIZE_def
      MAXVA_def PTE_V_def PTE_COW_def)

text \<open>
  Claim C3. For every mapping whose frame has the counter 1, \<^verbatim>\<open>cowcopy\<close> returns the
  address of that frame and leaves the allocator state as it found it: nothing is
  allocated, no byte is copied and the counter stays 1. In the entry of the faulting
  page the Writable bit (bit 2) is set and the COW bit (bit 8) is clear; every other bit
  of the entry, so also the frame it names, and every other entry are unchanged.
\<close>

theorem cowcopy_sole_owner:
  assumes "walk pagetable va = Some pte" and "memrefs s (frame_index (PTE2PA pte)) = 1"
  shows "\<exists>pagetable' pte'.
           cowcopy ok pagetable va s = Return (PTE2PA pte, pagetable', s) \<and>
           walk pagetable' va = Some pte' \<and>
           pte' = (pte OR PTE_W) AND NOT PTE_COW \<and>
           pte' AND PTE_W = PTE_W \<and> pte' AND PTE_COW = 0 \<and>
           (\<forall>n. bit pte' n \<longleftrightarrow> n = 2 \<or> (n \<noteq> 8 \<and> bit pte n)) \<and>
           PTE2PA pte' = PTE2PA pte \<and>
           (\<forall>va'. PGROUNDDOWN va' \<noteq> PGROUNDDOWN va \<longrightarrow> walk pagetable' va' = walk pagetable va')"
proof -
  define pte' where "pte' = (pte OR PTE_W) AND NOT PTE_COW"
  have bits: "bit pte' n \<longleftrightarrow> n = 2 \<or> (n \<noteq> 8 \<and> bit pte n)" for n
    unfolding pte'_def by (rule grant_write_bits)
  have w: "pte' AND PTE_W = PTE_W"
    by (rule bit_word_eqI) (auto simp add: bit_simps bits bit_pte_w)
  have cow: "pte' AND PTE_COW = 0"
    by (rule bit_word_eqI) (auto simp add: bit_simps bits bit_pte_cow)
  have pa: "PTE2PA pte' = PTE2PA pte"
    unfolding PTE2PA_def by (rule bit_word_eqI) (auto simp add: bit_simps bits)
  have "cowcopy ok pagetable va s = Return (PTE2PA pte, pte_store pagetable va pte', s)"
    unfolding pte'_def using assms by (rule cowcopy_in_place)
  moreover have "walk (pte_store pagetable va pte') va = Some pte'"
    by (rule walk_pte_store)
  moreover have "\<forall>va'. PGROUNDDOWN va' \<noteq> PGROUNDDOWN va \<longrightarrow>
      walk (pte_store pagetable va pte') va' = walk pagetable va'"
    by (simp add: walk_pte_store_other)
  ultimately show ?thesis
    using bits w cow pa pte'_def by blast
qed

theorem cowcopy_sole_owner_witness:
  "walk fork_pagetable 0x1234 = Some 0x21FFFD13 \<and>
   memrefs sole_state (frame_index (PTE2PA 0x21FFFD13)) = 1 \<and>
   (\<exists>pagetable'. cowcopy True fork_pagetable 0x1234 sole_state =
      Return (0x87FFF000, pagetable', sole_state) \<and>
      walk pagetable' 0x1234 = Some 0x21FFFC17)"
proof -
  have entry: "walk fork_pagetable 0x1234 = Some 0x21FFFD13"
    by (simp add: walk_def fork_pagetable_def PGROUNDDOWN_def PGSIZE_def)
  have sole: "memrefs sole_state (frame_index (PTE2PA 0x21FFFD13)) = 1"
    by (simp add: sole_state_def fork_state_def frame_index_def PTE2PA_def PGSIZE_def)
  have "PTE2PA 0x21FFFD13 = 0x87FFF000"
    by (simp add: PTE2PA_def)
  moreover have "(0x21FFFD13 OR PTE_W) AND NOT PTE_COW = 0x21FFFC17"
    by (simp add: PTE_W_def PTE_COW_def)
  ultimately show ?thesis
    using cowcopy_sole_owner[OF entry sole, of True] entry sole by auto
qed

text \<open>
  Claim C5. When the free list is empty, \<^verbatim>\<open>kalloc\<close> returns 0 and the state is the one
  it found: no counter, no byte of memory and not the list has changed. Under the same
  condition \<^verbatim>\<open>cowcopy\<close> on a mapping whose frame has a counter above 1 returns 0 as
  well, and leaves the page table, hence the mapping, and the whole state, hence the
  content of the frame and its counter, as they were.
\<close>

theorem kalloc_cowcopy_exhausted:
  assumes "freelist s = 0"
  shows "kalloc s = (0, s) \<and>
         (\<forall>pte. walk pagetable va = Some pte \<and> 1 < sint (memrefs s (frame_index (PTE2PA pte))) \<longrightarrow>
            cowcopy ok pagetable va s = Return (0, pagetable, s))"
proof -
  have "cowcopy ok pagetable va s = Return (0, pagetable, s)"
    if "walk pagetable va = Some pte" and "1 < sint (memrefs s (frame_index (PTE2PA pte)))" for pte
  proof -
    from that(2) have "memrefs s (frame_index (PTE2PA pte)) \<noteq> 1"
      by auto
    with that(1) assms show ?thesis
      by (simp add: cowcopy_def walk_pgrounddown kalloc_empty frame_index_def Let_def)
  qed
  with assms show ?thesis
    by (simp add: kalloc_empty)
qed

theorem kalloc_cowcopy_exhausted_witness:
  "freelist (fork_state\<lparr>freelist := 0\<rparr>) = 0 \<and>
   kalloc (fork_state\<lparr>freelist := 0\<rparr>) = (0, fork_state\<lparr>freelist := 0\<rparr>) \<and>
   walk fork_pagetable 0x1234 = Some 0x21FFFD13 \<and>
   1 < sint (memrefs (fork_state\<lparr>freelist := 0\<rparr>) (frame_index (PTE2PA 0x21FFFD13))) \<and>
   cowcopy True fork_pagetable 0x1234 (fork_state\<lparr>freelist := 0\<rparr>) =
     Return (0, fork_pagetable, fork_state\<lparr>freelist := 0\<rparr>)"
proof -
  have empty: "freelist (fork_state\<lparr>freelist := 0\<rparr>) = 0"
    by simp
  have entry: "walk fork_pagetable 0x1234 = Some 0x21FFFD13"
    by (simp add: walk_def fork_pagetable_def PGROUNDDOWN_def PGSIZE_def)
  have shared: "1 < sint (memrefs (fork_state\<lparr>freelist := 0\<rparr>) (frame_index (PTE2PA 0x21FFFD13)))"
    by (simp add: fork_state_def frame_index_def PTE2PA_def PGSIZE_def)
  from kalloc_cowcopy_exhausted[OF empty, of fork_pagetable "0x1234" True] entry shared empty show ?thesis
    by blast
qed

text \<open>
  Claim C4, as stated, fails: a counter above 1, a successful allocation and a
  successful installation do not suffice. On the machine where the shared frame
  \<open>0x87FFF000\<close> (counter 2, every byte 7) is also the head of the free list,
  \<^verbatim>\<open>kalloc\<close> hands out that very frame. \<^verbatim>\<open>cowcopy\<close> returns \<open>0x87FFF000\<close>, the
  frame it was to copy from; the counter of the frame is 0 afterwards, not 1; and the
  byte at offset \<open>0x10\<close> of the returned frame holds 1, not the 7 the frame held.
\<close>

theorem cowcopy_aliased_frame_counterexample:
  "walk fork_pagetable 0x1234 = Some 0x21FFFD13 \<and>
   PTE2PA 0x21FFFD13 = 0x87FFF000 \<and>
   sint (memrefs aliased_state (frame_index 0x87FFF000)) = 2 \<and>
   freelist aliased_state = 0x87FFF000 \<and>
   ram aliased_state (0x87FFF000 + 0x10) = 7 \<and>
   cowcopy True fork_pagetable 0x1234 aliased_state =
     Return (0x87FFF000, pte_store fork_pagetable 0x1234 0x21FFFC17, aliased_result) \<and>
   sint (memrefs aliased_result (frame_index 0x87FFF000)) = 0 \<and>
   ram aliased_result (0x87FFF000 + 0x10) = 1"
proof -
  have entry: "walk fork_pagetable 0x1234 = Some 0x21FFFD13"
    by (simp add: walk_def fork_pagetable_def PGROUNDDOWN_def PGSIZE_def)
  have pa: "PTE2PA 0x21FFFD13 = 0x87FFF000"
    by (simp add: PTE2PA_def)
  have idx: "frame_index 0x87FFF000 = 0x87FFF"
    by (simp add: frame_index_def PGSIZE_def)
  have counter: "memrefs aliased_state (frame_index (PTE2PA 0x21FFFD13)) = 2"
    by (simp add: pa idx aliased_state_def fork_state_def)
  have head: "freelist aliased_state = 0x87FFF000"
    by (simp add: aliased_state_def)
  have link: "load64 (ram aliased_state) 0x87FFF000 = 0x0707070707070707"
    by (simp add: aliased_state_def fork_state_def load64_def)
  have managed: "managed_frame s 0x87FFF000" if "end_addr s = 0x80021000" for s
    using that by (simp add: managed_frame_def PGSIZE_def PHYSTOP_def)
  have fill: "memset (memmove (memset (ram aliased_state) 0x87FFF000 5 PGSIZE)
        0x87FFF000 0x87FFF000 PGSIZE) 0x87FFF000 1 PGSIZE
      = memset (ram fork_state) 0x87FFF000 1 PGSIZE"
    by (rule memset_over_frame) (simp add: memmove_def memset_def aliased_state_def)
  have entry_new: "PA2PTE 0x87FFF000 OR
      ((PTE_FLAGS (0x21FFFD13 AND NOT PTE_V) OR PTE_W) AND NOT PTE_COW) OR PTE_V = 0x21FFFC17"
    by (simp add: PA2PTE_def PTE_FLAGS_def PTE_V_def PTE_W_def PTE_COW_def)
  have freed: "kfree 0x87FFF000
       (aliased_state\<lparr>memrefs := (memrefs aliased_state)(frame_index 0x87FFF000 := 1),
          freelist := 0x0707070707070707,
          ram := memmove (memset (ram aliased_state) 0x87FFF000 5 PGSIZE)
                   0x87FFF000 0x87FFF000 PGSIZE\<rparr>) = Return aliased_result"
    by (subst kfree_last)
      (auto simp add: managed aliased_state_def fork_state_def aliased_result_def fill idx
        fill[unfolded aliased_state_def fork_state_def, simplified])
  have not_sole: "memrefs aliased_state (frame_index (PTE2PA 0x21FFFD13)) \<noteq> 1"
    by (simp add: counter)
  have nonempty: "freelist aliased_state \<noteq> 0"
    by (simp add: head)
  have run: "cowcopy True fork_pagetable 0x1234 aliased_state =
     Return (0x87FFF000, pte_store fork_pagetable 0x1234 0x21FFFC17, aliased_result)"
    unfolding cowcopy_copy_path[OF entry not_sole nonempty]
    by (simp add: Let_def pa head link freed entry_new)
  have before: "sint (memrefs aliased_state (frame_index 0x87FFF000)) = 2"
    using counter by (simp add: pa)
  have old_byte: "ram aliased_state (0x87FFF000 + 0x10) = 7"
    by (simp add: aliased_state_def fork_state_def)
  have after: "sint (memrefs aliased_result (frame_index 0x87FFF000)) = 0"
    by (simp add: idx aliased_result_def)
  have new_byte: "ram aliased_result (0x87FFF000 + 0x10) = 1"
    by (simp add: aliased_result_def store64_def memset_def PGSIZE_def)
  from entry pa before head old_byte run after new_byte show ?thesis
    by blast
qed

text \<open>
  Claim C4, amended. Take a mapping whose frame \<open>f\<close> is a managed frame with a counter
  above 1, a free list whose head \<open>g\<close> is a managed frame other than \<open>f\<close> (so the
  allocation succeeds, with a frame of its own), and an installation of the new mapping
  that succeeds. Then \<^verbatim>\<open>cowcopy\<close> returns \<open>g\<close>. Every byte of \<open>g\<close> holds what the same
  byte of \<open>f\<close> held. The entry of the faulting page names \<open>g\<close>; among its ten flag bits
  Valid (bit 0) and Writable (bit 2) are set, COW (bit 8) is clear and every other flag
  is as it was; the other entries are unchanged. The counter of \<open>f\<close> is one less than
  before, and the counter of \<open>g\<close> is 1.
\<close>

theorem cowcopy_duplicates:
  assumes entry: "walk pagetable va = Some pte"
    and old_frame: "managed_frame s (PTE2PA pte)"
    and shared: "1 < sint (memrefs s (frame_index (PTE2PA pte)))"
    and nonempty: "freelist s \<noteq> 0"
    and new_frame: "managed_frame s (freelist s)"
    and distinct: "freelist s \<noteq> PTE2PA pte"
  shows "\<exists>pagetable' pte' s'.
           cowcopy True pagetable va s = Return (freelist s, pagetable', s') \<and>
           (\<forall>off. off < PGSIZE \<longrightarrow> ram s' (freelist s + off) = ram s (PTE2PA pte + off)) \<and>
           walk pagetable' va = Some pte' \<and>
           PTE2PA pte' = freelist s \<and>
           (\<forall>n. n < 10 \<longrightarrow> (bit pte' n \<longleftrightarrow> n = 0 \<or> n = 2 \<or> (n \<noteq> 8 \<and> bit pte n))) \<and>
           (\<forall>va'. PGROUNDDOWN va' \<noteq> PGROUNDDOWN va \<longrightarrow> walk pagetable' va' = walk pagetable va') \<and>
           memrefs s' (frame_index (PTE2PA pte)) = memrefs s (frame_index (PTE2PA pte)) - 1 \<and>
           sint (memrefs s' (frame_index (PTE2PA pte))) =
             sint (memrefs s (frame_index (PTE2PA pte))) - 1 \<and>
           memrefs s' (frame_index (freelist s)) = 1"
proof -
  define f where "f = PTE2PA pte"
  define g where "g = freelist s"
  define c where "c = memrefs s (frame_index f)"
  define s2 where "s2 = s\<lparr>memrefs := (memrefs s)(frame_index g := 1),
                 freelist := load64 (ram s) g,
                 ram := memmove (memset (ram s) g 5 PGSIZE) g f PGSIZE\<rparr>"
  define pte' where
    "pte' = PA2PTE g OR ((PTE_FLAGS (pte AND NOT PTE_V) OR PTE_W) AND NOT PTE_COW) OR PTE_V"
  define s' where "s' = s2\<lparr>memrefs := (memrefs s2)(frame_index f := c - 1)\<rparr>"
  have idx: "frame_index g \<noteq> frame_index f"
    using frame_index_inject[OF new_frame old_frame] distinct by (auto simp add: f_def g_def)
  have c1: "1 < sint c"
    using shared by (simp add: c_def f_def)
  then have dec: "sint (c - 1) = sint c - 1"
    by (simp add: sint_dec)
  have "c \<noteq> 1"
    using c1 by auto
  have managed2: "managed_frame s2 f"
    using old_frame by (simp add: managed_frame_def s2_def f_def)
  have count2: "memrefs s2 (frame_index f) = c"
    using idx by (simp add: s2_def c_def)
  have "kfree f s2 = Return s'"
    using managed2 c1 dec by (simp add: kfree_shared count2 s'_def)
  then have run: "cowcopy True pagetable va s = Return (g, pte_store pagetable va pte', s')"
    using cowcopy_copy_path[OF entry _ nonempty, of True] \<open>c \<noteq> 1\<close>
    by (simp add: c_def f_def g_def s2_def pte'_def Let_def)
  have aligned: "f mod 4096 = 0" "g mod 4096 = 0"
    using old_frame new_frame by (simp_all add: managed_frame_def PGSIZE_def f_def g_def)
  have content: "ram s' (g + off) = ram s (f + off)" if "off < PGSIZE" for off
  proof -
    have "f \<noteq> g"
      using distinct by (simp add: f_def g_def)
    from page_disjoint[OF aligned(1) aligned(2) this] that
    have "\<not> f + off - g < PGSIZE"
      by (simp add: PGSIZE_def)
    with that show ?thesis
      by (simp add: s'_def s2_def memmove_inside memset_outside)
  qed
  have frame: "PTE2PA pte' = g"
    unfolding pte'_def using new_frame by (intro new_entry_frame) (simp add: managed_frame_def g_def)
  have bits: "\<forall>n. n < 10 \<longrightarrow> (bit pte' n \<longleftrightarrow> n = 0 \<or> n = 2 \<or> (n \<noteq> 8 \<and> bit pte n))"
    unfolding pte'_def by (simp add: new_entry_bits)
  have counters: "memrefs s' (frame_index f) = c - 1" "memrefs s' (frame_index g) = 1"
    using idx by (simp_all add: s'_def s2_def)
  have others: "\<forall>va'. PGROUNDDOWN va' \<noteq> PGROUNDDOWN va \<longrightarrow>
      walk (pte_store pagetable va pte') va' = walk pagetable va'"
    by (simp add: walk_pte_store_other)
  have "cowcopy True pagetable va s = Return (freelist s, pte_store pagetable va pte', s') \<and>
           (\<forall>off. off < PGSIZE \<longrightarrow> ram s' (freelist s + off) = ram s (PTE2PA pte + off)) \<and>
           walk (pte_store pagetable va pte') va = Some pte' \<and>
           PTE2PA pte' = freelist s \<and>
           (\<forall>n. n < 10 \<longrightarrow> (bit pte' n \<longleftrightarrow> n = 0 \<or> n = 2 \<or> (n \<noteq> 8 \<and> bit pte n))) \<and>
           (\<forall>va'. PGROUNDDOWN va' \<noteq> PGROUNDDOWN va \<longrightarrow>
              walk (pte_store pagetable va pte') va' = walk pagetable va') \<and>
           memrefs s' (frame_index (PTE2PA pte)) = memrefs s (frame_index (PTE2PA pte)) - 1 \<and>
           sint (memrefs s' (frame_index (PTE2PA pte))) =
             sint (memrefs s (frame_index (PTE2PA pte))) - 1 \<and>
           memrefs s' (frame_index (freelist s)) = 1"
    using run content frame bits counters others dec
    by (simp add: walk_pte_store f_def[symmetric] g_def[symmetric] c_def[symmetric])
  then show ?thesis
    by blast
qed

theorem cowcopy_duplicates_witness:
  "walk fork_pagetable 0x1234 = Some 0x21FFFD13 \<and>
   managed_frame fork_state (PTE2PA 0x21FFFD13) \<and>
   1 < sint (memrefs fork_state (frame_index (PTE2PA 0x21FFFD13))) \<and>
   freelist fork_state \<noteq> 0 \<and>
   managed_frame fork_state (freelist fork_state) \<and>
   freelist fork_state \<noteq> PTE2PA 0x21FFFD13 \<and>
   (\<exists>pagetable' pte' s'.
      cowcopy True fork_pagetable 0x1234 fork_state = Return (0x87FFE000, pagetable', s') \<and>
      ram s' (0x87FFE000 + 0x10) = 7 \<and>
      walk pagetable' 0x1234 = Some pte' \<and> PTE2PA pte' = 0x87FFE000 \<and>
      sint (memrefs s' (frame_index 0x87FFF000)) = 1)"
proof -
  have entry: "walk fork_pagetable 0x1234 = Some 0x21FFFD13"
    by (simp add: walk_def fork_pagetable_def PGROUNDDOWN_def PGSIZE_def)
  have pa: "PTE2PA 0x21FFFD13 = 0x87FFF000"
    by (simp add: PTE2PA_def)
  have old_frame: "managed_frame fork_state (PTE2PA 0x21FFFD13)"
    by (simp add: pa managed_frame_def fork_state_def PGSIZE_def PHYSTOP_def)
  have shared: "1 < sint (memrefs fork_state (frame_index (PTE2PA 0x21FFFD13)))"
    by (simp add: pa fork_state_def frame_index_def PGSIZE_def)
  have head: "freelist fork_state = 0x87FFE000"
    by (simp add: fork_state_def)
  have nonempty: "freelist fork_state \<noteq> 0"
    by (simp add: head)
  have new_frame: "managed_frame fork_state (freelist fork_state)"
    by (simp add: managed_frame_def fork_state_def PGSIZE_def PHYSTOP_def)
  have distinct: "freelist fork_state \<noteq> PTE2PA 0x21FFFD13"
    by (simp add: pa head)
  have before: "sint (memrefs fork_state (frame_index 0x87FFF000)) = 2"
    and old_byte: "ram fork_state (0x87FFF000 + 0x10) = 7"
    by (simp_all add: fork_state_def frame_index_def PGSIZE_def)
  from cowcopy_duplicates[OF entry old_frame shared nonempty new_frame distinct]
  obtain pagetable' pte' s' where
    run: "cowcopy True fork_pagetable 0x1234 fork_state = Return (0x87FFE000, pagetable', s')"
    and content: "\<forall>off. off < PGSIZE \<longrightarrow> ram s' (0x87FFE000 + off) = ram fork_state (0x87FFF000 + off)"
    and new_entry: "walk pagetable' 0x1234 = Some pte'" "PTE2PA pte' = 0x87FFE000"
    and counter: "sint (memrefs s' (frame_index 0x87FFF000)) =
        sint (memrefs fork_state (frame_index 0x87FFF000)) - 1"
    unfolding pa head by blast
  from content[rule_format, of "0x10"] old_byte have "ram s' (0x87FFE000 + 0x10) = 7"
    by (simp add: PGSIZE_def)
  moreover from counter before have "sint (memrefs s' (frame_index 0x87FFF000)) = 1"
    by simp
  ultimately show ?thesis
    using entry old_frame shared nonempty new_frame distinct run new_entry by blast
qed

text \<open>
  The frame of the mapping has to be a managed frame: for a frame of the kernel image
  the final \<^verbatim>\<open>kfree\<close> of the duplication path panics.
\<close>

lemma cowcopy_reserved_frame_panics:
  "cowcopy True reserved_pagetable 0x1234 reserved_state = Panic ''kfree''"
proof -
  have entry: "walk reserved_pagetable 0x1234 = Some 0x20000113"
    by (simp add: walk_def reserved_pagetable_def PGROUNDDOWN_def PGSIZE_def)
  have pa: "PTE2PA 0x20000113 = 0x80000000"
    by (simp add: PTE2PA_def)
  have not_sole: "memrefs reserved_state (frame_index (PTE2PA 0x20000113)) \<noteq> 1"
    by (simp add: pa reserved_state_def fork_state_def frame_index_def PGSIZE_def)
  have nonempty: "freelist reserved_state \<noteq> 0"
    by (simp add: reserved_state_def fork_state_def)
  have "\<not> managed_frame s 0x80000000" if "end_addr s = 0x80021000" for s
    using that by (simp add: managed_frame_def)
  then show ?thesis
    unfolding cowcopy_copy_path[OF entry not_sole nonempty]
    by (simp add: Let_def pa kfree_panic reserved_state_def fork_state_def)
qed

text \<open>
  Claim C1, as the code behaves. Take a valid mapping whose frame has a counter other
  than 1, a free list whose head is a managed frame, and an installation of the new
  mapping that fails. Then \<^verbatim>\<open>cowcopy\<close> returns 0 and the newly allocated frame is
  released: it is the head of the free list again, in front of the same list, with the
  counter 0. But the entry of the faulting page is left with its Valid bit clear: the
  code clears the bit before the installation and never sets it again.
\<close>

theorem cowcopy_install_failure:
  assumes entry: "walk pagetable va = Some pte"
    and valid: "pte AND PTE_V \<noteq> 0"
    and not_sole: "memrefs s (frame_index (PTE2PA pte)) \<noteq> 1"
    and nonempty: "freelist s \<noteq> 0"
    and new_frame: "managed_frame s (freelist s)"
  shows "\<exists>pagetable' pte' s'.
           cowcopy False pagetable va s = Return (0, pagetable', s') \<and>
           walk pagetable' va = Some pte' \<and>
           pte' = pte AND NOT PTE_V \<and>
           pte' AND PTE_V = 0 \<and>
           freelist s' = freelist s \<and>
           load64 (ram s') (freelist s') = load64 (ram s) (freelist s) \<and>
           memrefs s' (frame_index (freelist s)) = 0"
proof -
  define g where "g = freelist s"
  define s2 where "s2 = s\<lparr>memrefs := (memrefs s)(frame_index g := 1),
                 freelist := load64 (ram s) g,
                 ram := memmove (memset (ram s) g 5 PGSIZE) g (PTE2PA pte) PGSIZE\<rparr>"
  define s' where "s' = s2\<lparr>memrefs := (memrefs s2)(frame_index g := 0),
               ram := store64 (memset (ram s2) g 1 PGSIZE) g (freelist s2),
               freelist := g\<rparr>"
  have "managed_frame s2 g"
    using new_frame by (simp add: managed_frame_def s2_def g_def)
  moreover have "memrefs s2 (frame_index g) = 1"
    by (simp add: s2_def)
  ultimately have "kfree g s2 = Return s'"
    by (simp add: kfree_last s'_def)
  then have "cowcopy False pagetable va s = Return (0, pte_store pagetable va (pte AND NOT PTE_V), s')"
    using cowcopy_copy_path[OF entry not_sole nonempty, of False]
    by (simp add: g_def s2_def Let_def)
  moreover have "(pte AND NOT PTE_V) AND PTE_V = 0"
    by (simp add: word_bw_assocs)
  moreover have "freelist s' = g" "load64 (ram s') g = load64 (ram s) g"
    "memrefs s' (frame_index g) = 0"
    by (simp_all add: s'_def s2_def load64_store64)
  ultimately show ?thesis
    by (simp add: walk_pte_store g_def)
qed

theorem cowcopy_install_failure_witness:
  "walk fork_pagetable 0x1234 = Some 0x21FFFD13 \<and>
   0x21FFFD13 AND PTE_V \<noteq> 0 \<and>
   memrefs fork_state (frame_index (PTE2PA 0x21FFFD13)) \<noteq> 1 \<and>
   freelist fork_state \<noteq> 0 \<and>
   managed_frame fork_state (freelist fork_state) \<and>
   (\<exists>pagetable' s'.
      cowcopy False fork_pagetable 0x1234 fork_state = Return (0, pagetable', s') \<and>
      walk pagetable' 0x1234 = Some 0x21FFFD12 \<and>
      iscow pagetable' 0x1234 = 0 \<and>
      freelist s' = 0x87FFE000)"
proof -
  have entry: "walk fork_pagetable 0x1234 = Some 0x21FFFD13"
    by (simp add: walk_def fork_pagetable_def PGROUNDDOWN_def PGSIZE_def)
  have valid: "0x21FFFD13 AND PTE_V \<noteq> 0"
    by (simp add: PTE_V_def)
  have not_sole: "memrefs fork_state (frame_index (PTE2PA 0x21FFFD13)) \<noteq> 1"
    by (simp add: PTE2PA_def fork_state_def frame_index_def PGSIZE_def)
  have head: "freelist fork_state = 0x87FFE000"
    by (simp add: fork_state_def)
  have nonempty: "freelist fork_state \<noteq> 0"
    by (simp add: head)
  have new_frame: "managed_frame fork_state (freelist fork_state)"
    by (simp add: managed_frame_def fork_state_def PGSIZE_def PHYSTOP_def)
  have cleared: "0x21FFFD13 AND NOT PTE_V = 0x21FFFD12"
    by (simp add: PTE_V_def)
  from cowcopy_install_failure[OF entry valid not_sole nonempty new_frame]
  obtain pagetable' s' where
    run: "cowcopy False fork_pagetable 0x1234 fork_state = Return (0, pagetable', s')"
    and left: "walk pagetable' 0x1234 = Some 0x21FFFD12"
    and list: "freelist s' = 0x87FFE000"
    unfolding cleared head by blast
  from left have "iscow pagetable' 0x1234 = 0"
    by (simp add: iscow_def MAXVA_def PTE_V_def)
  with run left list entry valid not_sole nonempty new_frame show ?thesis
    by blast
qed

text \<open>
  Claim C2, as stated, fails: \<^verbatim>\<open>cowcopy\<close> tests neither the pointer that \<^verbatim>\<open>walk\<close>
  returns nor the Valid bit of the entry. On the machine whose entry for the page
  \<open>0x1000\<close> has the Valid bit clear and whose frame has the counter 1, the call returns
  the address of the frame.
\<close>

theorem cowcopy_invalid_entry_counterexample:
  "walk stale_pagetable 0x1234 = Some 0x21FFFD12 \<and>
   0x21FFFD12 AND PTE_V = 0 \<and>
   cowcopy True stale_pagetable 0x1234 sole_state =
     Return (0x87FFF000, pte_store stale_pagetable 0x1234 0x21FFFC16, sole_state)"
proof -
  have entry: "walk stale_pagetable 0x1234 = Some 0x21FFFD12"
    by (simp add: walk_def stale_pagetable_def PGROUNDDOWN_def PGSIZE_def)
  have pa: "PTE2PA 0x21FFFD12 = 0x87FFF000"
    by (simp add: PTE2PA_def)
  have sole: "memrefs sole_state (frame_index (PTE2PA 0x21FFFD12)) = 1"
    by (simp add: pa sole_state_def fork_state_def frame_index_def PGSIZE_def)
  have "(0x21FFFD12 OR PTE_W) AND NOT PTE_COW = 0x21FFFC16"
    by (simp add: PTE_W_def PTE_COW_def)
  with cowcopy_in_place[OF entry sole, of True] entry pa show ?thesis
    by (simp add: PTE_V_def)
qed

text \<open>
  Claim C2, amended. When the lookup finds no mapping, \<^verbatim>\<open>cowcopy\<close> does not return:
  it dereferences the null entry pointer. When the lookup finds a mapping whose Valid
  bit is clear, \<^verbatim>\<open>cowcopy\<close> proceeds as for a valid one. With the counter 1 it returns
  the address of the frame, with Writable set and COW clear in the entry; with another
  counter and an empty free list it returns 0 and changes nothing; with another counter
  and a non-empty free list its outcome is the outcome of the same call on the entry
  marked valid.
\<close>

theorem cowcopy_unchecked_entry:
  "(walk pagetable va = None \<longrightarrow> cowcopy ok pagetable va s = NullDeref) \<and>
   (\<forall>pte. walk pagetable va = Some pte \<and> pte AND PTE_V = 0 \<longrightarrow>
      (memrefs s (frame_index (PTE2PA pte)) = 1 \<longrightarrow>
         cowcopy ok pagetable va s =
           Return (PTE2PA pte, pte_store pagetable va ((pte OR PTE_W) AND NOT PTE_COW), s)) \<and>
      (memrefs s (frame_index (PTE2PA pte)) \<noteq> 1 \<and> freelist s = 0 \<longrightarrow>
         cowcopy ok pagetable va s = Return (0, pagetable, s)) \<and>
      (memrefs s (frame_index (PTE2PA pte)) \<noteq> 1 \<and> freelist s \<noteq> 0 \<longrightarrow>
         cowcopy ok pagetable va s = cowcopy ok (pte_store pagetable va (pte OR PTE_V)) va s))"
proof -
  have absent: "cowcopy ok pagetable va s = NullDeref" if "walk pagetable va = None"
    using that by (simp add: cowcopy_def walk_pgrounddown)
  have exhausted: "cowcopy ok pagetable va s = Return (0, pagetable, s)"
    if "walk pagetable va = Some pte" and "memrefs s (frame_index (PTE2PA pte)) \<noteq> 1"
      and "freelist s = 0" for pte
    using that by (simp add: cowcopy_def walk_pgrounddown kalloc_empty frame_index_def Let_def)
  have as_valid: "cowcopy ok pagetable va s = cowcopy ok (pte_store pagetable va (pte OR PTE_V)) va s"
    if entry: "walk pagetable va = Some pte" and count: "memrefs s (frame_index (PTE2PA pte)) \<noteq> 1"
      and nonempty: "freelist s \<noteq> 0" for pte
  proof -
    have same_frame: "PTE2PA (pte OR PTE_V) = PTE2PA pte"
      unfolding PTE2PA_def by (rule bit_word_eqI) (auto simp add: bit_simps bit_pte_v)
    have same_clear: "(pte OR PTE_V) AND NOT PTE_V = pte AND NOT PTE_V"
      by (rule bit_word_eqI) (auto simp add: bit_simps bit_pte_v)
    have entry': "walk (pte_store pagetable va (pte OR PTE_V)) va = Some (pte OR PTE_V)"
      by (rule walk_pte_store)
    have count': "memrefs s (frame_index (PTE2PA (pte OR PTE_V))) \<noteq> 1"
      using count by (simp add: same_frame)
    show ?thesis
      unfolding cowcopy_copy_path[OF entry count nonempty] cowcopy_copy_path[OF entry' count' nonempty]
      by (simp add: same_frame same_clear pte_store_twice Let_def cong: outcome.case_cong)
  qed
  show ?thesis
    using absent exhausted as_valid cowcopy_in_place by blast
qed

theorem cowcopy_unchecked_entry_witness:
  "walk stale_pagetable 0x2000 = None \<and>
   cowcopy True stale_pagetable 0x2000 sole_state = NullDeref \<and>
   walk stale_pagetable 0x1234 = Some 0x21FFFD12 \<and> 0x21FFFD12 AND PTE_V = 0 \<and>
   memrefs sole_state (frame_index (PTE2PA 0x21FFFD12)) = 1 \<and>
   cowcopy True stale_pagetable 0x1234 sole_state =
     Return (PTE2PA 0x21FFFD12,
             pte_store stale_pagetable 0x1234 ((0x21FFFD12 OR PTE_W) AND NOT PTE_COW), sole_state)"
proof -
  have absent: "walk stale_pagetable 0x2000 = None"
    by (simp add: walk_def stale_pagetable_def PGROUNDDOWN_def PGSIZE_def)
  have entry: "walk stale_pagetable 0x1234 = Some 0x21FFFD12"
    by (simp add: walk_def stale_pagetable_def PGROUNDDOWN_def PGSIZE_def)
  have invalid: "0x21FFFD12 AND PTE_V = 0"
    by (simp add: PTE_V_def)
  have sole: "memrefs sole_state (frame_index (PTE2PA 0x21FFFD12)) = 1"
    by (simp add: PTE2PA_def sole_state_def fork_state_def frame_index_def PGSIZE_def)
  from cowcopy_unchecked_entry[of stale_pagetable "0x2000" True sole_state] absent
  have "cowcopy True stale_pagetable 0x2000 sole_state = NullDeref"
    by blast
  moreover from cowcopy_unchecked_entry[of stale_pagetable "0x1234" True sole_state] entry invalid sole
  have "cowcopy True stale_pagetable 0x1234 sole_state =
     Return (PTE2PA 0x21FFFD12,
             pte_store stale_pagetable 0x1234 ((0x21FFFD12 OR PTE_W) AND NOT PTE_COW), sole_state)"
    by blast
  ultimately show ?thesis
    using absent entry invalid sole by blast
qed

end
